theory Spec2Isabelle
  imports Complex_Main "HOL-Library.Word"
begin

unbundle bit_operations_syntax

section \<open>Instrument drivers: Tektronix scopes and Newport power meters\<close>

text \<open>
  The drivers of \<^verbatim>\<open>instrumental/drivers/scopes/tektronix.py\<close> and
  \<^verbatim>\<open>instrumental/drivers/powermeters/newport.py\<close> are sequences of messages written to
  an instrument and of replies parsed back. A driver method is embedded as a function from
  the connection before the call to the outcome of the call and the connection after it.
  An exception of the source is the outcome \<open>Inl e\<close>; what was written before the exception
  stays written.

  The language is Python 3. Text is \<open>string\<close>, and a \<^verbatim>\<open>bytes\<close> object is a \<open>string\<close> too,
  one character for each byte; indexing a \<^verbatim>\<open>bytes\<close> object gives an integer, and an integer
  never equals a \<^verbatim>\<open>bytes\<close> object.
\<close>

subsection \<open>Exceptions\<close>

datatype error =
    Exception string  \<comment> \<open>\<^verbatim>\<open>raise Exception(msg)\<close>\<close>
  | ValueError        \<comment> \<open>\<^verbatim>\<open>int\<close>, \<^verbatim>\<open>float\<close>, \<^verbatim>\<open>np.frombuffer\<close>\<close>
  | IndexError        \<comment> \<open>indexing a string out of range\<close>
  | KeyError          \<comment> \<open>a dict lookup with a missing key\<close>
  | AssertionError    \<comment> \<open>a failed \<^verbatim>\<open>assert\<close>\<close>

subsection \<open>The instrument connection\<close>

text \<open>
  The connection object (\<^verbatim>\<open>self.inst\<close>, \<^verbatim>\<open>self._rsrc\<close>) belongs to the VISA library. It is
  an object with a hidden device-side state \<open>dev\<close> and three methods over it; \<open>sent\<close> is the
  list of every message the driver has written, oldest first.
\<close>

record 'd conn =
  dev :: 'd
  on_write :: "string \<Rightarrow> 'd \<Rightarrow> 'd"
  on_read :: "'d \<Rightarrow> string \<times> 'd"
  on_read_raw :: "'d \<Rightarrow> string \<times> 'd"
  sent :: "string list"

type_synonym ('a, 'd) io = "'d conn \<Rightarrow> (error + 'a) \<times> 'd conn"

definition return :: "'a \<Rightarrow> ('a, 'd) io" where
  "return a c = (Inr a, c)"

definition raise :: "error \<Rightarrow> ('a, 'd) io" where
  "raise e c = (Inl e, c)"

definition lift :: "error + 'a \<Rightarrow> ('a, 'd) io" where
  "lift r c = (r, c)"

definition bind :: "('a, 'd) io \<Rightarrow> ('a \<Rightarrow> ('b, 'd) io) \<Rightarrow> ('b, 'd) io" where
  "bind m f c = (case m c of (Inl e, c') \<Rightarrow> (Inl e, c') | (Inr a, c') \<Rightarrow> f a c')"

definition inst_write :: "string \<Rightarrow> (unit, 'd) io" where
  "inst_write msg c = (Inr (), c\<lparr>dev := on_write c msg (dev c), sent := sent c @ [msg]\<rparr>)"

definition inst_read :: "(string, 'd) io" where
  "inst_read c = (Inr (fst (on_read c (dev c))), c\<lparr>dev := snd (on_read c (dev c))\<rparr>)"

definition inst_read_raw :: "(string, 'd) io" where
  "inst_read_raw c =
     (Inr (fst (on_read_raw c (dev c))), c\<lparr>dev := snd (on_read_raw c (dev c))\<rparr>)"

definition inst_ask :: "string \<Rightarrow> (string, 'd) io" where
  \<comment> \<open>\<^verbatim>\<open>ask\<close> / \<^verbatim>\<open>query\<close>: write the message, then read one reply\<close>
  "inst_ask msg = bind (inst_write msg) (\<lambda>_. inst_read)"

subsection \<open>Python built-ins used by the drivers\<close>

definition lower_char :: "char \<Rightarrow> char" where
  "lower_char ch =
     (if of_char (CHR ''A'') \<le> (of_char ch :: nat) \<and> (of_char ch :: nat) \<le> of_char (CHR ''Z'')
      then char_of ((of_char ch :: nat) + 32) else ch)"

definition lower :: "string \<Rightarrow> string" where
  \<comment> \<open>\<^verbatim>\<open>str.lower()\<close>\<close>
  "lower s = map lower_char s"

definition is_digit :: "char \<Rightarrow> bool" where
  "is_digit ch \<longleftrightarrow>
     of_char (CHR ''0'') \<le> (of_char ch :: nat) \<and> (of_char ch :: nat) \<le> of_char (CHR ''9'')"

definition digit_val :: "char \<Rightarrow> nat" where
  "digit_val ch = of_char ch - of_char (CHR ''0'')"

definition is_space :: "char \<Rightarrow> bool" where
  \<comment> \<open>space, tab, newline, vertical tab, form feed, carriage return\<close>
  "is_space ch \<longleftrightarrow> ch = CHR '' '' \<or> (9 \<le> (of_char ch :: nat) \<and> (of_char ch :: nat) \<le> 13)"

definition strip_space :: "string \<Rightarrow> string" where
  "strip_space s = rev (dropWhile is_space (rev (dropWhile is_space s)))"

definition digits_val :: "string \<Rightarrow> nat" where
  \<comment> \<open>the decimal value of a run of digits, most significant first\<close>
  "digits_val s = foldl (\<lambda>acc ch. 10 * acc + digit_val ch) 0 s"

definition all_digits :: "string \<Rightarrow> bool" where
  "all_digits s \<longleftrightarrow> s \<noteq> [] \<and> list_all is_digit s"

definition signed_digits :: "string \<Rightarrow> error + int" where
  "signed_digits s =
     (case s of
        [] \<Rightarrow> Inl ValueError
      | ch # r \<Rightarrow>
          if ch = CHR ''-'' then (if all_digits r then Inr (- int (digits_val r)) else Inl ValueError)
          else if ch = CHR ''+'' then (if all_digits r then Inr (int (digits_val r)) else Inl ValueError)
          else if all_digits (ch # r) then Inr (int (digits_val (ch # r)))
          else Inl ValueError)"

definition py_int :: "string \<Rightarrow> error + int" where
  \<comment> \<open>\<^verbatim>\<open>int(s)\<close> on text or bytes: surrounding whitespace, an optional sign, decimal
      digits; underscores between digits are not parsed\<close>
  "py_int s = signed_digits (strip_space s)"

fun str_nat :: "nat \<Rightarrow> string" where
  "str_nat n =
     (if n < 10 then [char_of (of_char (CHR ''0'') + n)]
      else str_nat (n div 10) @ [char_of (of_char (CHR ''0'') + n mod 10)])"

declare str_nat.simps [simp del]

definition str_int :: "int \<Rightarrow> string" where
  \<comment> \<open>\<^verbatim>\<open>'{}'.format(i)\<close> and \<^verbatim>\<open>'%d' % i\<close> for an integer\<close>
  "str_int i = (if i < 0 then CHR ''-'' # str_nat (nat (- i)) else str_nat (nat i))"

definition not_exp :: "char \<Rightarrow> bool" where
  "not_exp ch \<longleftrightarrow> ch \<noteq> CHR ''e'' \<and> ch \<noteq> CHR ''E''"

definition not_dot :: "char \<Rightarrow> bool" where
  "not_dot ch \<longleftrightarrow> ch \<noteq> CHR ''.''"

definition scale10 :: "real \<Rightarrow> int \<Rightarrow> real" where
  "scale10 m e = (if 0 \<le> e then m * 10 ^ nat e else m / 10 ^ nat (- e))"

definition py_float :: "string \<Rightarrow> error + real" where
  \<comment> \<open>\<^verbatim>\<open>float(s)\<close> on a decimal literal, its value taken exactly: surrounding whitespace,
      an optional sign, digits with an optional fraction, an optional exponent. The
      literals \<^verbatim>\<open>inf\<close>, \<^verbatim>\<open>infinity\<close> and \<^verbatim>\<open>nan\<close> have no real value and are not parsed;
      nothing is rounded, overflows or underflows.\<close>
  "py_float s =
     (let t = strip_space s;
          neg = (t \<noteq> [] \<and> hd t = CHR ''-'');
          body = (if t \<noteq> [] \<and> (hd t = CHR ''-'' \<or> hd t = CHR ''+'') then tl t else t);
          mant = takeWhile not_exp body;
          ex = dropWhile not_exp body;
          ip = takeWhile not_dot mant;
          fp = drop 1 (dropWhile not_dot mant)
      in if ip @ fp = [] \<or> \<not> list_all is_digit ip \<or> \<not> list_all is_digit fp then Inl ValueError
         else case (if ex = [] then Inr 0 else signed_digits (tl ex)) of
                Inl e \<Rightarrow> Inl e
              | Inr e \<Rightarrow>
                  Inr ((if neg then - 1 else 1) *
                       scale10 (real (digits_val (ip @ fp)) / 10 ^ length fp) e))"

text \<open>
  The waveform code parses six replies with \<^verbatim>\<open>float\<close> and computes on numpy arrays of
  64-bit floats. That arithmetic belongs to Python and numpy: its rounding, its overflow
  and its values that are not numbers are not modelled. The parser, the conversion of an
  integer and the three operations are a parameter of the waveform code, a \<open>float64\<close>.
  \<open>exact\<close> is the instance without rounding, for running the code on replies such as
  \<^verbatim>\<open>1.0\<close> and \<^verbatim>\<open>0.0\<close>.
\<close>

record 'f float64 =
  fl_parse :: "string \<Rightarrow> error + 'f"
  fl_of_int :: "int \<Rightarrow> 'f"
  fl_sub :: "'f \<Rightarrow> 'f \<Rightarrow> 'f"
  fl_mul :: "'f \<Rightarrow> 'f \<Rightarrow> 'f"
  fl_add :: "'f \<Rightarrow> 'f \<Rightarrow> 'f"

definition exact :: "real float64" where
  "exact = \<lparr>fl_parse = py_float, fl_of_int = real_of_int, fl_sub = (\<lambda>a b. a - b),
            fl_mul = (\<lambda>a b. a * b), fl_add = (\<lambda>a b. a + b)\<rparr>"

fun split_on :: "char \<Rightarrow> string \<Rightarrow> string list" where
  \<comment> \<open>\<^verbatim>\<open>s.split(sep)\<close> for a one-character separator\<close>
  "split_on sep [] = [Nil]"
| "split_on sep (ch # s) =
     (if ch = sep then [] # split_on sep s
      else (case split_on sep s of [] \<Rightarrow> [ch] # [] | w # ws \<Rightarrow> (ch # w) # ws))"

definition strip_char :: "char \<Rightarrow> string \<Rightarrow> string" where
  \<comment> \<open>\<^verbatim>\<open>s.strip(ch)\<close>\<close>
  "strip_char ch s = rev (dropWhile (\<lambda>x. x = ch) (rev (dropWhile (\<lambda>x. x = ch) s)))"

fun map_result :: "('a \<Rightarrow> error + 'b) \<Rightarrow> 'a list \<Rightarrow> error + 'b list" where
  \<comment> \<open>a comprehension whose body may raise: the first exception ends it\<close>
  "map_result f [] = Inr []"
| "map_result f (x # xs) =
     (case f x of
        Inl e \<Rightarrow> Inl e
      | Inr y \<Rightarrow> (case map_result f xs of Inl e \<Rightarrow> Inl e | Inr ys \<Rightarrow> Inr (y # ys)))"

subsection \<open>tektronix.py: measurement statistics\<close>

definition are_measurement_stats_on :: "(bool, 'd) io" where
  "are_measurement_stats_on =
     bind (inst_ask ''measu:statistics:mode?'') (\<lambda>res.
     return (res \<notin> set [''OFF'', ''0'']))"

definition enable_measurement_stats :: "bool \<Rightarrow> (unit, 'd) io" where
  "enable_measurement_stats enable =
     inst_write (''measu:statistics:mode '' @ (if enable then ''ALL'' else ''OFF''))"

definition disable_measurement_stats :: "(unit, 'd) io" where
  "disable_measurement_stats = enable_measurement_stats False"

text \<open>
  \<^verbatim>\<open>Q_\<close> parses a text such as \<^verbatim>\<open>1.5V\<close> into a quantity. It belongs to the units
  library, so it is a parameter \<open>Q\<close> of the model.
\<close>

datatype 'q stat = Quantity 'q | Count int

definition stats_off_msg :: string where
  "stats_off_msg = ''Measurement statistics are turned off, please turn them on.''"

definition stats_query :: "int \<Rightarrow> string" where
  "stats_query num =
     (''measurement:meas'' @ str_int num @ '':'') @ ''value?;mean?;stddev?;minimum?;maximum?;units?''"

definition read_measurement_stats ::
  "(string \<Rightarrow> error + 'q) \<Rightarrow> int \<Rightarrow> (string \<rightharpoonup> 'q stat, 'd) io" where
  "read_measurement_stats Q num =
     bind are_measurement_stats_on (\<lambda>on.
     if \<not> on then raise (Exception stats_off_msg)
     else
       let keys = [''value'', ''mean'', ''stddev'', ''minimum'', ''maximum''] in
       bind (inst_ask (stats_query num)) (\<lambda>reply.
       let res = split_on (CHR '';'') reply;
           units = strip_char (CHR 0x22) (last res);
           res = butlast res in
       bind (lift (map_result (\<lambda>(k, rval). map_sum id (\<lambda>q. (k, Quantity q)) (Q (rval @ units)))
                     (zip keys res))) (\<lambda>stats.
       bind (inst_ask ''measurement:statistics:weighting?'') (\<lambda>w.
       bind (lift (py_int w)) (\<lambda>num_samples.
       return ((map_of stats)(''nsamps'' \<mapsto> Count num_samples)))))))"

subsection \<open>tektronix.py: waveform retrieval\<close>

text \<open>
  \<^verbatim>\<open>get_data\<close> in three parts, in the order of the source: the messages and replies of
  lines 63 to 83 (\<open>get_data_io\<close>), the decoding of the raw block of lines 87 to 93
  (\<open>decode_block\<close>), and the scaling of lines 85, 95 and 96. The raw block that
  \<^verbatim>\<open>read_raw\<close> returns is a \<^verbatim>\<open>bytes\<close> object.
\<close>

record 'f fetched =
  raw_bin :: string
  x_scale :: 'f
  y_scale :: 'f
  x_zero :: 'f
  y_zero :: 'f
  x_offset :: 'f
  y_offset :: 'f
  x_unit :: string
  y_unit :: string

definition stop :: int where
  \<comment> \<open>\<^verbatim>\<open>stop = 10000\<close>, which replaces the point count the device reported\<close>
  "stop = 10000"

definition unquote :: "string \<Rightarrow> string" where
  \<comment> \<open>the slice \<^verbatim>\<open>s[1:-1]\<close>\<close>
  "unquote s = butlast (drop 1 s)"

definition ask_float :: "'f float64 \<Rightarrow> string \<Rightarrow> ('f, 'd) io" where
  \<comment> \<open>\<^verbatim>\<open>float(inst.ask(msg))\<close>\<close>
  "ask_float F msg = bind (inst_ask msg) (\<lambda>r. lift (fl_parse F r))"

definition get_data_io :: "'f float64 \<Rightarrow> int \<Rightarrow> ('f fetched, 'd) io" where
  "get_data_io F channel =
     bind (inst_write (''data:source ch'' @ str_int channel)) (\<lambda>_.
     bind (inst_ask ''wfmpre:nr_pt?'') (\<lambda>r.
     bind (lift (py_int r)) (\<lambda>_.
     bind (inst_write ''data:width 2'') (\<lambda>_.
     bind (inst_write ''data:encdg RIBinary'') (\<lambda>_.
     bind (inst_write ''data:start 1'') (\<lambda>_.
     bind (inst_write (''data:stop '' @ str_int stop)) (\<lambda>_.
     bind (inst_write ''curve?'') (\<lambda>_.
     bind inst_read_raw (\<lambda>raw.
     bind (ask_float F ''wfmpre:xincr?'') (\<lambda>xs.
     bind (ask_float F ''wfmpre:ymult?'') (\<lambda>ys.
     bind (ask_float F ''wfmpre:xzero?'') (\<lambda>xz.
     bind (ask_float F ''wfmpre:yzero?'') (\<lambda>yz.
     bind (ask_float F ''wfmpre:pt_off?'') (\<lambda>xo.
     bind (ask_float F ''wfmpre:yoff?'') (\<lambda>yo.
     bind (inst_ask ''wfmpre:xunit?'') (\<lambda>xu.
     bind (inst_ask ''wfmpre:yunit?'') (\<lambda>yu.
     return \<lparr>raw_bin = raw, x_scale = xs, y_scale = ys, x_zero = xz, y_zero = yz,
             x_offset = xo, y_offset = yo, x_unit = unquote xu, y_unit = unquote yu\<rparr>
     )))))))))))))))))"

definition be_i2 :: "char \<Rightarrow> char \<Rightarrow> int" where
  \<comment> \<open>one sample of dtype \<^verbatim>\<open>>i2\<close>: two bytes, most significant first, two's complement\<close>
  "be_i2 hi lo = sint (word_of_nat (256 * of_char hi + of_char lo) :: 16 word)"

fun samples :: "string \<Rightarrow> int list" where
  "samples (hi # lo # bs) = be_i2 hi lo # samples bs"
| "samples bs = []"

definition frombuffer :: "string \<Rightarrow> nat \<Rightarrow> int \<Rightarrow> error + int list" where
  \<comment> \<open>\<^verbatim>\<open>np.frombuffer(buf, dtype='>i2', offset=offset, count=count)\<close>: a negative count
      takes all that is left, which must then be whole samples; a count larger than what is
      left is an error\<close>
  "frombuffer buf offset count =
     (if length buf < offset then Inl ValueError
      else let left = drop offset buf in
        if count < 0 then
          (if length left mod 2 \<noteq> 0 then Inl ValueError else Inr (samples left))
        else if length left < 2 * nat count then Inl ValueError
        else Inr (samples (take (2 * nat count) left)))"

definition header_msg :: string where
  "header_msg = ''Binary reponse missing header! Something's wrong.''"

datatype py_value = PyInt int | PyBytes string

definition decode_block :: "string \<Rightarrow> error + int list" where
  \<comment> \<open>\<^verbatim>\<open>raw_bin[0]\<close> and \<^verbatim>\<open>raw_bin[1]\<close> are integers, \<^verbatim>\<open>b'#'\<close> is a \<^verbatim>\<open>bytes\<close> object of length
      one, and \<^verbatim>\<open>!=\<close> compares the two as Python values; \<^verbatim>\<open>int\<close> of an integer is that
      integer, \<^verbatim>\<open>int\<close> of a \<^verbatim>\<open>bytes\<close> slice parses its text\<close>
  "decode_block raw =
     (if raw = [] then Inl IndexError
      else if PyInt (int (of_char (raw ! 0))) \<noteq> PyBytes ''#'' then Inl (Exception header_msg)
      else if length raw < 2 then Inl IndexError
      else let header_width = nat (int (of_char (raw ! 1)) + 2) in
           (case py_int (drop 2 (take header_width raw)) of
              Inl e \<Rightarrow> Inl e
            | Inr num_bytes \<Rightarrow> frombuffer raw header_width (num_bytes div 2)))"

text \<open>
  Modelled from the spec: the unit registry \<^verbatim>\<open>u\<close> and the quantity constructor \<^verbatim>\<open>Q_\<close> of
  the package are not among the sources. The spec has them produce a value tagged with the
  unit text, which is what a \<open>quantity\<close> and a \<open>quantities\<close> are.
\<close>

record quantity =
  magnitude :: real
  unit_tag :: string

record 'f quantities =
  magnitudes :: "'f list"
  units_tag :: string

definition scaled :: "'f float64 \<Rightarrow> 'f \<Rightarrow> 'f \<Rightarrow> 'f \<Rightarrow> int \<Rightarrow> 'f" where
  \<comment> \<open>one element of \<^verbatim>\<open>(raw - offset)*scale + zero\<close>\<close>
  "scaled F offset scale zero r =
     fl_add F (fl_mul F (fl_sub F (fl_of_int F r) offset) scale) zero"

definition get_data :: "'f float64 \<Rightarrow> int \<Rightarrow> ('f quantities \<times> 'f quantities, 'd) io" where
  "get_data F channel =
     bind (get_data_io F channel) (\<lambda>p.
     let raw_data_x = [1..stop] in
     bind (lift (decode_block (raw_bin p))) (\<lambda>raw_data_y.
     let data_x = \<lparr>magnitudes = map (scaled F (x_offset p) (x_scale p) (x_zero p)) raw_data_x,
                   units_tag = x_unit p\<rparr>;
         data_y = \<lparr>magnitudes = map (scaled F (y_offset p) (y_scale p) (y_zero p)) raw_data_y,
                   units_tag = y_unit p\<rparr>
     in return (data_x, data_y)))"

subsection \<open>newport.py: the 1830-C\<close>

text \<open>
  Modelled from the spec: \<^verbatim>\<open>VisaMixin\<close> and \<^verbatim>\<open>MessageFacet\<close> are not among the sources. By
  the spec a facet's get sends the command followed by \<^verbatim>\<open>?\<close>, reads one line and decodes
  it (here with \<^verbatim>\<open>int\<close>); \<^verbatim>\<open>self.write(fmt, n)\<close> writes the message with \<^verbatim>\<open>{}\<close> filled
  in, and \<^verbatim>\<open>self.query\<close> writes a message and reads the reply. The \<^verbatim>\<open>Facet\<close> decorator
  around \<^verbatim>\<open>power\<close> hands on the quantity in watts that the method body returns, and
  \<^verbatim>\<open>deprecated\<close> hands on the call.
\<close>

definition status_byte :: "(int, 'd) io" where
  \<comment> \<open>\<^verbatim>\<open>status_byte = MyFacet('Q', readonly=True)\<close>\<close>
  "status_byte = bind (inst_ask ''Q?'') (\<lambda>r. lift (py_int r))"

definition get_status_byte :: "(int, 'd) io" where
  "get_status_byte = status_byte"

definition SATURATED :: int where "SATURATED = 4"
definition OUT_OF_RANGE :: int where "OUT_OF_RANGE = 8"
definition BUSY :: int where "BUSY = 32"

definition is_measurement_valid :: "(bool, 'd) io" where
  "is_measurement_valid =
     bind get_status_byte (\<lambda>reg.
     let is_saturated = (reg AND SATURATED \<noteq> 0);
         is_over_range = (reg AND OUT_OF_RANGE \<noteq> 0);
         is_busy = (reg AND BUSY \<noteq> 0)
     in return (\<not> (is_saturated \<or> is_over_range \<or> is_busy)))"

definition power :: "(quantity, 'd) io" where
  "power =
     bind (inst_ask ''U?'') (\<lambda>original_units.
     if original_units \<noteq> ''1'' then
       bind (inst_write ''U1'') (\<lambda>_.
       bind (inst_ask ''D?'') (\<lambda>r.
       bind (lift (py_float r)) (\<lambda>pw.
       bind (inst_write (''U'' @ original_units)) (\<lambda>_.
       return \<lparr>magnitude = pw, unit_tag = ''watts''\<rparr>))))
     else
       bind (inst_ask ''D?'') (\<lambda>r.
       bind (lift (py_float r)) (\<lambda>pw.
       return \<lparr>magnitude = pw, unit_tag = ''watts''\<rparr>)))"

definition units_msg :: string where
  "units_msg = ''`units` must be one of 'watts', 'dbm', 'db', or 'rel''"

definition Newport_1830_C_set_units :: "string \<Rightarrow> (unit, 'd) io" where
  "Newport_1830_C_set_units units =
     (let units = lower units;
          valid_units = [(''watts'', 1), (''dbm'', 2), (''db'', 3), (''rel'', 4 :: int)]
      in case map_of valid_units units of
           None \<Rightarrow> raise (Exception units_msg)
         | Some code \<Rightarrow> inst_write (''U'' @ str_int code))"

definition Newport_1830_C_get_units :: "(string, 'd) io" where
  "Newport_1830_C_get_units =
     bind (inst_ask ''U?'') (\<lambda>r.
     bind (lift (py_int r)) (\<lambda>val.
     let units = [(1 :: int, ''watts''), (2, ''db''), (3, ''dbm''), (4, ''rel'')]
     in case map_of units val of None \<Rightarrow> raise KeyError | Some name \<Rightarrow> return name))"

subsection \<open>newport.py: the 2936-R\<close>

text \<open>
  \<^verbatim>\<open>Newport_2936_R.write\<close> sleeps, then writes the message and a newline. The pause is
  not modelled. Integer arguments are \<open>int\<close>; the argument of \<^verbatim>\<open>set_autoranging\<close> is a
  Python bool or integer, \<^verbatim>\<open>True\<close> being 1 and \<^verbatim>\<open>False\<close> 0 as dictionary keys.
\<close>

definition Newport_2936_R_write :: "string \<Rightarrow> (unit, 'd) io" where
  "Newport_2936_R_write message = inst_write (message @ [CHR 0x0A])"

definition set_channel :: "int \<Rightarrow> (unit, 'd) io" where
  "set_channel channel = Newport_2936_R_write (''pm:channel '' @ str_int channel)"

definition Newport_2936_R_set_units :: "string \<Rightarrow> int \<Rightarrow> (unit, 'd) io" where
  "Newport_2936_R_set_units units channel =
     (let valid_units = [(''amps'', 0), (''volts'', 1), (''watts'', 2), (''watts_cm2'', 3),
                         (''joules'', 4), (''joules_cm2'', 5), (''dbm'', 6 :: int)]
      in bind (set_channel channel) (\<lambda>_.
         case map_of valid_units (lower units) of
           None \<Rightarrow> raise KeyError
         | Some code \<Rightarrow> Newport_2936_R_write (''pm:units '' @ str_int code)))"

definition set_analogfilter :: "string \<Rightarrow> int \<Rightarrow> (unit, 'd) io" where
  "set_analogfilter mode channel =
     (let valid_modes = [(''None'', 0), (''250khz'', 1), (''12.5khz'', 2), (''1khz'', 3),
                         (''5hz'', 4 :: int)]
      in bind (set_channel channel) (\<lambda>_.
         case map_of valid_modes (lower mode) of
           None \<Rightarrow> raise KeyError
         | Some code \<Rightarrow> Newport_2936_R_write (''pm:analogfilter '' @ str_int code)))"

definition set_digitalfilter :: "int \<Rightarrow> int \<Rightarrow> (unit, 'd) io" where
  "set_digitalfilter num channel =
     (if \<not> (num \<ge> 0 \<and> num \<le> 10000) then raise AssertionError
      else bind (set_channel channel) (\<lambda>_.
           Newport_2936_R_write (''pm:digitalfilter '' @ str_int num)))"

definition set_autoranging :: "int \<Rightarrow> int \<Rightarrow> (unit, 'd) io" where
  "set_autoranging auto channel =
     (let valid_auto = [(1, 1), (0, 0 :: int)]
      in bind (set_channel channel) (\<lambda>_.
         case map_of valid_auto auto of
           None \<Rightarrow> raise KeyError
         | Some code \<Rightarrow> Newport_2936_R_write (''pm:auto '' @ str_int code)))"

definition Newport_2936_R_set_range :: "int \<Rightarrow> int \<Rightarrow> (unit, 'd) io" where
  "Newport_2936_R_set_range v channel =
     (if \<not> (v \<ge> 0 \<and> v \<le> 7) then raise AssertionError
      else bind (set_channel channel) (\<lambda>_.
           Newport_2936_R_write (''pm:range '' @ str_int v)))"

subsection \<open>Devices to run the drivers against\<close>

text \<open>
  A scripted device answers each query from a fixed table and hands out one fixed raw
  block; its state is the last message it received. An echoing device stores what follows
  a set prefix and answers one query with the stored text.
\<close>

definition scripted :: "(string \<Rightarrow> string) \<Rightarrow> string \<Rightarrow> string conn" where
  "scripted replies block =
     \<lparr>dev = [], on_write = (\<lambda>msg _. msg), on_read = (\<lambda>last. (replies last, last)),
      on_read_raw = (\<lambda>last. (block, last)), sent = []\<rparr>"

definition echoing :: "string \<Rightarrow> string \<Rightarrow> string \<Rightarrow> (string \<times> string) conn" where
  "echoing set_prefix query_msg initial =
     \<lparr>dev = (initial, []),
      on_write = (\<lambda>msg d.
         if msg \<noteq> query_msg \<and> take (length set_prefix) msg = set_prefix
         then (drop (length set_prefix) msg, msg) else (fst d, msg)),
      on_read = (\<lambda>d. (if snd d = query_msg then fst d else [], d)),
      on_read_raw = (\<lambda>d. ([], d)),
      sent = []\<rparr>"

definition meter :: "string \<Rightarrow> string conn" where
  \<comment> \<open>a power meter in units mode \<open>mode\<close> whose display reads 0.003\<close>
  "meter mode =
     scripted (\<lambda>q. if q = ''U?'' then mode else if q = ''D?'' then ''0.003'' else []) []"

definition scope_replies :: "string \<Rightarrow> string \<Rightarrow> string" where
  \<comment> \<open>a scope with x increment \<open>xincr\<close>, every other scale 1.0, every offset 0.0, and the
      units \<^verbatim>\<open>"S"\<close> and \<^verbatim>\<open>"V"\<close>\<close>
  "scope_replies xincr q =
     (if q = ''wfmpre:nr_pt?'' then ''10000''
      else if q = ''wfmpre:xincr?'' then xincr
      else if q = ''wfmpre:ymult?'' then ''1.0''
      else if q = ''wfmpre:xzero?'' then ''0.0''
      else if q = ''wfmpre:yzero?'' then ''0.0''
      else if q = ''wfmpre:pt_off?'' then ''0.0''
      else if q = ''wfmpre:yoff?'' then ''0.0''
      else if q = ''wfmpre:xunit?'' then [CHR 0x22, CHR ''S'', CHR 0x22]
      else if q = ''wfmpre:yunit?'' then [CHR 0x22, CHR ''V'', CHR 0x22]
      else [])"

definition scope :: "string \<Rightarrow> string \<Rightarrow> string conn" where
  "scope xincr block = scripted (scope_replies xincr) block"

definition block4 :: string where
  \<comment> \<open>the block of the four samples 10, 20, 30, 40\<close>
  "block4 = ''#18'' @
     [CHR 0x00, CHR 0x0A, CHR 0x00, CHR 0x14, CHR 0x00, CHR 0x1E, CHR 0x00, CHR 0x28]"

definition block_bad :: string where
  \<comment> \<open>the same bytes behind a first byte that is not the marker\<close>
  "block_bad = ''x18'' @
     [CHR 0x00, CHR 0x0A, CHR 0x00, CHR 0x14, CHR 0x00, CHR 0x1E, CHR 0x00, CHR 0x28]"

section \<open>Running a driver step by step\<close>

lemma bind_write:
  "bind (inst_write m) f c = f () (c\<lparr>dev := on_write c m (dev c), sent := sent c @ [m]\<rparr>)"
  by (simp add: bind_def inst_write_def)

lemma bind_ask:
  "bind (inst_ask m) f c =
     f (fst (on_read c (on_write c m (dev c))))
       (c\<lparr>sent := sent c @ [m], dev := snd (on_read c (on_write c m (dev c)))\<rparr>)"
  by (simp add: bind_def inst_ask_def inst_write_def inst_read_def)

lemma bind_read_raw:
  "bind inst_read_raw f c =
     f (fst (on_read_raw c (dev c))) (c\<lparr>dev := snd (on_read_raw c (dev c))\<rparr>)"
  by (simp add: bind_def inst_read_raw_def)

lemma bind_assoc: "bind (bind m g) f = bind m (\<lambda>a. bind (g a) f)"
  by (rule ext) (simp add: bind_def split: prod.splits sum.splits)

lemma bind_return: "bind (return a) f c = f a c"
  by (simp add: bind_def return_def)

lemma bind_raise: "bind (raise e) f c = (Inl e, c)"
  by (simp add: bind_def raise_def)

lemma bind_lift_Inr: "bind (lift (Inr a)) f c = f a c"
  by (simp add: bind_def lift_def)

lemma bind_lift_Inl: "bind (lift (Inl e)) f c = (Inl e, c)"
  by (simp add: bind_def lift_def)

lemmas io_simps = bind_assoc bind_write bind_ask bind_read_raw bind_return bind_raise
  bind_lift_Inr bind_lift_Inl return_def raise_def

section \<open>Parsing and formatting\<close>

lemmas parse_simps = py_int_def signed_digits_def strip_space_def is_space_def all_digits_def
  is_digit_def digits_val_def digit_val_def py_float_def not_exp_def not_dot_def scale10_def

lemmas text_simps = lower_def lower_char_def str_int_def str_nat.simps char_of_eq_iff

lemma str_int_small:
  "str_int 0 = ''0''" "str_int 1 = ''1''" "str_int 2 = ''2''" "str_int 3 = ''3''"
  "str_int 4 = ''4''" "str_int 5 = ''5''" "str_int 6 = ''6''"
  by (simp_all add: text_simps)

lemma floats:
  "py_float ''1.0'' = Inr 1" "py_float ''0.0'' = Inr 0" "py_float ''-1.0'' = Inr (- 1)"
  "py_float ''0.003'' = Inr (3 / 1000)"
  by (simp_all add: parse_simps)

lemma py_int_10000: "py_int ''10000'' = Inr 10000"
  by (simp add: parse_simps)

lemma digit_not_space: "is_digit ch \<Longrightarrow> \<not> is_space ch"
  by (auto simp add: is_digit_def is_space_def)

lemma digit_not_sign: "is_digit ch \<Longrightarrow> ch \<noteq> CHR ''-'' \<and> ch \<noteq> CHR ''+''"
  by (auto simp add: is_digit_def)

lemma strip_space_digits:
  assumes "all_digits s"
  shows "strip_space s = s"
proof -
  from assms have ne: "s \<noteq> []" and d: "\<forall>ch \<in> set s. is_digit ch"
    by (simp_all add: all_digits_def list_all_iff)
  from ne d have "\<not> is_space (hd s)" by (simp add: digit_not_space)
  then have a: "dropWhile is_space s = s" by (simp add: dropWhile_eq_self_iff)
  from ne d have "\<not> is_space (hd (rev s))" by (simp add: hd_rev digit_not_space)
  then have "dropWhile is_space (rev s) = rev s" by (simp add: dropWhile_eq_self_iff)
  with a show ?thesis by (simp add: strip_space_def)
qed

lemma py_int_digits:
  assumes "all_digits s"
  shows "py_int s = Inr (int (digits_val s))"
proof -
  from assms obtain ch r where s: "s = ch # r" by (cases s) (auto simp add: all_digits_def)
  with assms have "is_digit ch" by (simp add: all_digits_def)
  then have "ch \<noteq> CHR ''-''" "ch \<noteq> CHR ''+''" by (simp_all add: digit_not_sign)
  with assms s show ?thesis
    by (simp add: py_int_def strip_space_digits signed_digits_def)
qed

lemma py_int_digit:
  assumes "is_digit d"
  shows "py_int [d] = Inr (int (digit_val d))"
  using py_int_digits [of "[d]"] assms by (simp add: all_digits_def digits_val_def)

lemma lower_char_not_N: "lower_char ch \<noteq> CHR ''N''"
  by (auto simp add: lower_char_def char_of_eq_iff take_bit_eq_mod)

lemma lower_not_None: "lower mode \<noteq> ''None''"
proof
  assume "lower mode = ''None''"
  then have "\<exists>ch. lower_char ch = CHR ''N''"
    by (cases mode) (auto simp add: lower_def)
  then show False by (simp add: lower_char_not_N)
qed

section \<open>Measurement statistics of the scope\<close>

lemma stats_query_neq: "stats_query num \<noteq> ''measu:statistics:mode?''"
  by (simp add: stats_query_def)

text \<open>
  Claim C6. Whatever the measurement slot, when the device answers the statistics-mode
  query with \<^verbatim>\<open>OFF\<close> or \<^verbatim>\<open>0\<close>, \<^verbatim>\<open>read_measurement_stats\<close> raises the exception that
  says statistics are off, and the only message the call has written is the mode query:
  the combined value query is not among the messages of the call.
\<close>

theorem read_measurement_stats_off:
  assumes "fst (on_read c (on_write c ''measu:statistics:mode?'' (dev c))) \<in> {''OFF'', ''0''}"
  shows "fst (read_measurement_stats Q num c) = Inl (Exception stats_off_msg)
       \<and> sent (snd (read_measurement_stats Q num c)) = sent c @ [''measu:statistics:mode?'']
       \<and> stats_query num \<notin>
           set (drop (length (sent c)) (sent (snd (read_measurement_stats Q num c))))"
  using assms
  by (auto simp add: read_measurement_stats_def are_measurement_stats_on_def io_simps
      stats_query_neq)

theorem read_measurement_stats_off_witness:
  "fst (on_read (scripted (\<lambda>_. ''OFF'') []) (on_write (scripted (\<lambda>_. ''OFF'') [])
       ''measu:statistics:mode?'' (dev (scripted (\<lambda>_. ''OFF'') [])))) \<in> {''OFF'', ''0''}
   \<and> fst (read_measurement_stats (\<lambda>s. Inr s) 1 (scripted (\<lambda>_. ''OFF'') [])) =
       Inl (Exception stats_off_msg)
   \<and> sent (snd (read_measurement_stats (\<lambda>s. Inr s) 1 (scripted (\<lambda>_. ''OFF'') []))) =
       [''measu:statistics:mode?'']"
  using read_measurement_stats_off [of "scripted (\<lambda>_. ''OFF'') []" "\<lambda>s. Inr s" 1]
  by (simp add: scripted_def)

text \<open>
  Claim C10. \<^verbatim>\<open>enable_measurement_stats(True)\<close> writes the mode command with the token
  \<^verbatim>\<open>ALL\<close>; \<^verbatim>\<open>enable_measurement_stats(False)\<close> and \<^verbatim>\<open>disable_measurement_stats\<close> write it
  with \<^verbatim>\<open>OFF\<close>. \<^verbatim>\<open>are_measurement_stats_on\<close> is false exactly when the reply to the mode
  query is \<^verbatim>\<open>OFF\<close> or \<^verbatim>\<open>0\<close>. Against a device that echoes the token last set, the query
  is true after enabling and false after disabling. \<^verbatim>\<open>TDS_3000\<close> and \<^verbatim>\<open>MSO_DPO_4000\<close>
  inherit the three methods from \<^verbatim>\<open>TekScope\<close> unchanged.
\<close>

theorem measurement_stats_tokens:
  "sent (snd (enable_measurement_stats True c)) = sent c @ [''measu:statistics:mode ALL'']
   \<and> sent (snd (enable_measurement_stats False c)) = sent c @ [''measu:statistics:mode OFF'']
   \<and> sent (snd (disable_measurement_stats c)) = sent c @ [''measu:statistics:mode OFF'']
   \<and> fst (enable_measurement_stats b c) = Inr ()
   \<and> fst (disable_measurement_stats c) = Inr ()
   \<and> fst (are_measurement_stats_on c) =
       Inr (fst (on_read c (on_write c ''measu:statistics:mode?'' (dev c))) \<noteq> ''OFF''
          \<and> fst (on_read c (on_write c ''measu:statistics:mode?'' (dev c))) \<noteq> ''0'')
   \<and> fst (are_measurement_stats_on (snd (enable_measurement_stats True
         (echoing ''measu:statistics:mode '' ''measu:statistics:mode?'' initial)))) = Inr True
   \<and> fst (are_measurement_stats_on (snd (enable_measurement_stats False
         (echoing ''measu:statistics:mode '' ''measu:statistics:mode?'' initial)))) = Inr False
   \<and> fst (are_measurement_stats_on (snd (disable_measurement_stats
         (echoing ''measu:statistics:mode '' ''measu:statistics:mode?'' initial)))) = Inr False"
  by (simp add: enable_measurement_stats_def disable_measurement_stats_def
      are_measurement_stats_on_def inst_write_def io_simps echoing_def)

theorem measurement_stats_tokens_witness:
  "sent (snd (enable_measurement_stats True (scripted (\<lambda>_. ''ALL'') []))) =
     [''measu:statistics:mode ALL'']
   \<and> fst (are_measurement_stats_on (scripted (\<lambda>_. ''ALL'') [])) = Inr True
   \<and> fst (are_measurement_stats_on (scripted (\<lambda>_. ''0'') [])) = Inr False
   \<and> fst (are_measurement_stats_on (snd (disable_measurement_stats
         (echoing ''measu:statistics:mode '' ''measu:statistics:mode?'' ''ALL'')))) = Inr False"
  using measurement_stats_tokens [of "scripted (\<lambda>_. ''ALL'') []" True "''ALL''"]
    measurement_stats_tokens [of "scripted (\<lambda>_. ''0'') []" True "''ALL''"]
  by (simp add: scripted_def)

section \<open>Waveform retrieval\<close>

subsection \<open>The raw block\<close>

lemma be_i2_values:
  "be_i2 (CHR 0x00) (CHR 0x0A) = 10" "be_i2 (CHR 0x01) (CHR 0x00) = 256"
  "be_i2 (CHR 0xFF) (CHR 0xFE) = - 2" "be_i2 (CHR 0x80) (CHR 0x00) = - 32768"
  by (simp_all add: be_i2_def)

lemma length_samples: "length (samples bs) = length bs div 2"
  by (induction bs rule: samples.induct) simp_all

lemma decode_block_raises:
  "decode_block raw = (if raw = [] then Inl IndexError else Inl (Exception header_msg))"
  by (simp add: decode_block_def)

text \<open>
  Claim C3 fails on the code. Line 87 compares the integer \<^verbatim>\<open>raw_bin[0]\<close> with the
  \<^verbatim>\<open>bytes\<close> object \<^verbatim>\<open>b'#'\<close>, and the two are never equal: the decoding raises the
  exception that the header is missing on every block that is not empty, on the
  well-formed block of the four samples 10, 20, 30, 40, whose first byte is the marker,
  as on a block whose first byte is not. No block is decoded into samples.
\<close>

theorem decode_block_rejects_marker:
  "hd block4 = CHR ''#''
   \<and> decode_block block4 = Inl (Exception header_msg)
   \<and> decode_block block_bad = Inl (Exception header_msg)
   \<and> decode_block raw = (if raw = [] then Inl IndexError else Inl (Exception header_msg))"
  by (simp add: decode_block_raises block4_def block_bad_def)

subsection \<open>The queries of a scripted scope\<close>

lemma get_data_io_scripted:
  assumes "py_int (T ''wfmpre:nr_pt?'') = Inr n"
    and "fl_parse F (T ''wfmpre:xincr?'') = Inr xi"
    and "fl_parse F (T ''wfmpre:ymult?'') = Inr ym"
    and "fl_parse F (T ''wfmpre:xzero?'') = Inr xz"
    and "fl_parse F (T ''wfmpre:yzero?'') = Inr yz"
    and "fl_parse F (T ''wfmpre:pt_off?'') = Inr xo"
    and "fl_parse F (T ''wfmpre:yoff?'') = Inr yo"
  shows "fst (get_data_io F channel (scripted T B)) =
     Inr \<lparr>raw_bin = B, x_scale = xi, y_scale = ym, x_zero = xz, y_zero = yz, x_offset = xo,
          y_offset = yo, x_unit = unquote (T ''wfmpre:xunit?''),
          y_unit = unquote (T ''wfmpre:yunit?'')\<rparr>"
  using assms by (simp add: get_data_io_def ask_float_def io_simps scripted_def)

lemma scope_io:
  "fst (get_data_io exact 1 (scope ''1.0'' block)) =
     Inr \<lparr>raw_bin = block, x_scale = 1, y_scale = 1, x_zero = 0, y_zero = 0, x_offset = 0,
          y_offset = 0, x_unit = ''S'', y_unit = ''V''\<rparr>"
  unfolding scope_def
  by (subst get_data_io_scripted [of _ 10000 _ 1 1 0 0 0 0])
    (simp_all add: exact_def scope_replies_def floats py_int_10000 unquote_def)

lemma scope_io_sent:
  "sent (snd (get_data_io exact 1 (scope ''1.0'' block))) =
     [''data:source ch1'', ''wfmpre:nr_pt?'', ''data:width 2'', ''data:encdg RIBinary'',
      ''data:start 1'', ''data:stop 10000'', ''curve?'', ''wfmpre:xincr?'', ''wfmpre:ymult?'',
      ''wfmpre:xzero?'', ''wfmpre:yzero?'', ''wfmpre:pt_off?'', ''wfmpre:yoff?'',
      ''wfmpre:xunit?'', ''wfmpre:yunit?'']"
  by (simp add: get_data_io_def ask_float_def io_simps scope_def scripted_def scope_replies_def
      exact_def floats py_int_10000 text_simps stop_def)

subsection \<open>No call returns a waveform\<close>

lemma get_data_raises:
  assumes "get_data_io F channel c = (Inr p, c')"
  shows "get_data F channel c =
           (Inl (if raw_bin p = [] then IndexError else Exception header_msg), c')"
  using assms by (simp add: get_data_def bind_def lift_def decode_block_raises)

lemma get_data_io_fails:
  assumes "get_data_io F channel c = (Inl e, c')"
  shows "get_data F channel c = (Inl e, c')"
  using assms by (simp add: get_data_def bind_def)

lemma get_data_never_returns: "isl (fst (get_data F channel c))"
proof (cases "get_data_io F channel c")
  case (Pair r c')
  then show ?thesis
    by (cases r) (simp_all add: get_data_raises get_data_io_fails)
qed

text \<open>
  Claim C1 fails on the code. Against the scope of the example, every scale \<^verbatim>\<open>1.0\<close>, every
  offset \<^verbatim>\<open>0.0\<close>, the units \<^verbatim>\<open>"S"\<close> and \<^verbatim>\<open>"V"\<close> and the block of the samples 10, 20, 30,
  40, \<^verbatim>\<open>get_data\<close> writes its fifteen messages and then raises the exception that the
  header is missing, where the claim has it return the scaled values. Whatever the
  channel, the device and the floating-point arithmetic, \<^verbatim>\<open>get_data\<close> ends in an
  exception: the scaling of lines 95 and 96 is never reached.
\<close>

theorem get_data_raises_on_example:
  "fst (get_data exact 1 (scope ''1.0'' block4)) = Inl (Exception header_msg)
   \<and> sent (snd (get_data exact 1 (scope ''1.0'' block4))) =
       [''data:source ch1'', ''wfmpre:nr_pt?'', ''data:width 2'', ''data:encdg RIBinary'',
        ''data:start 1'', ''data:stop 10000'', ''curve?'', ''wfmpre:xincr?'',
        ''wfmpre:ymult?'', ''wfmpre:xzero?'', ''wfmpre:yzero?'', ''wfmpre:pt_off?'',
        ''wfmpre:yoff?'', ''wfmpre:xunit?'', ''wfmpre:yunit?'']
   \<and> isl (fst (get_data F channel c))"
proof -
  obtain p c' where io: "get_data_io exact 1 (scope ''1.0'' block4) = (Inr p, c')"
    and p: "raw_bin p = block4"
    using scope_io [of block4] by (cases "get_data_io exact 1 (scope ''1.0'' block4)") auto
  have ne: "block4 \<noteq> []" by (simp add: block4_def)
  from get_data_raises [OF io] p ne
  have g: "get_data exact 1 (scope ''1.0'' block4) = (Inl (Exception header_msg), c')"
    by simp
  from io have "sent c' = sent (snd (get_data_io exact 1 (scope ''1.0'' block4)))"
    by simp
  with g show ?thesis
    by (simp add: scope_io_sent get_data_never_returns)
qed

section \<open>The 1830-C power meter\<close>

lemma and_bit_2: "(reg AND (4::int) = 0) = (\<not> bit reg 2)"
  using and_exp_eq_0_iff_not_bit [of reg 2] by simp

lemma and_bit_3: "(reg AND (8::int) = 0) = (\<not> bit reg 3)"
  using and_exp_eq_0_iff_not_bit [of reg 3] by simp

lemma and_bit_5: "(reg AND (32::int) = 0) = (\<not> bit reg 5)"
  using and_exp_eq_0_iff_not_bit [of reg 5] by simp

lemma mask_44: "(reg AND (44::int) = 0) = (reg AND 4 = 0 \<and> reg AND 8 = 0 \<and> reg AND 32 = 0)"
proof -
  have "(44::int) = 4 OR (8 OR 32)" by simp
  then have "reg AND 44 = (reg AND 4) OR ((reg AND 8) OR (reg AND 32))"
    by (simp only: bit.conj_disj_distrib)
  then show ?thesis by (simp only: or_eq_0_iff)
qed

text \<open>
  Claim C7. Whatever integer \<open>reg\<close> the status query reads, and so for each of the 256
  byte values, \<^verbatim>\<open>is_measurement_valid\<close> is false exactly when the bit of weight 4
  (saturated), of weight 8 (out of range) or of weight 32 (busy) is set in \<open>reg\<close>: the
  result is that \<open>reg AND 44\<close> is zero, so no other bit has a part in it.
\<close>

theorem is_measurement_valid_bits:
  assumes "py_int (fst (on_read c (on_write c ''Q?'' (dev c)))) = Inr reg"
  shows "fst (is_measurement_valid c) = Inr (\<not> (bit reg 2 \<or> bit reg 3 \<or> bit reg 5))
       \<and> fst (is_measurement_valid c) = Inr (reg AND 44 = 0)
       \<and> sent (snd (is_measurement_valid c)) = sent c @ [''Q?'']"
proof -
  have "(reg AND 44 = 0) = (\<not> (bit reg 2 \<or> bit reg 3 \<or> bit reg 5))"
    by (simp add: mask_44 and_bit_2 and_bit_3 and_bit_5)
  with assms show ?thesis
    by (simp add: is_measurement_valid_def get_status_byte_def status_byte_def io_simps
        SATURATED_def OUT_OF_RANGE_def BUSY_def and_bit_2 and_bit_3 and_bit_5)
qed

theorem is_measurement_valid_bits_witness:
  "py_int (fst (on_read (scripted (\<lambda>_. ''145'') []) (on_write (scripted (\<lambda>_. ''145'') []) ''Q?''
      (dev (scripted (\<lambda>_. ''145'') []))))) = Inr 145
   \<and> fst (is_measurement_valid (scripted (\<lambda>_. ''145'') [])) = Inr True
   \<and> fst (is_measurement_valid (scripted (\<lambda>_. ''136'') [])) = Inr False"
proof -
  have h: "py_int (fst (on_read (scripted (\<lambda>_. ''145'') []) (on_write (scripted (\<lambda>_. ''145'') [])
      ''Q?'' (dev (scripted (\<lambda>_. ''145'') []))))) = Inr 145"
    by (simp add: scripted_def parse_simps)
  have k: "py_int (fst (on_read (scripted (\<lambda>_. ''136'') []) (on_write (scripted (\<lambda>_. ''136'') [])
      ''Q?'' (dev (scripted (\<lambda>_. ''136'') []))))) = Inr 136"
    by (simp add: scripted_def parse_simps)
  have b: "\<not> bit (145 :: int) 2" "\<not> bit (145 :: int) 3" "\<not> bit (145 :: int) 5"
    "bit (136 :: int) 3"
    by (simp_all add: bit_iff_odd)
  from is_measurement_valid_bits [OF h] is_measurement_valid_bits [OF k] b h
  show ?thesis by simp
qed

text \<open>
  Claim C8. When the reply to the units query \<^verbatim>\<open>U?\<close> is \<^verbatim>\<open>1\<close>, \<^verbatim>\<open>power\<close> writes nothing
  but \<^verbatim>\<open>U?\<close> and \<^verbatim>\<open>D?\<close> and returns the parsed display value tagged watts. When the reply
  is anything else, it writes \<^verbatim>\<open>U1\<close>, reads the display, and writes \<^verbatim>\<open>U\<close> followed by
  the original reply. With the replies \<^verbatim>\<open>0.003\<close> and \<^verbatim>\<open>1\<close> the result is 0.003 watts and
  no units command is written.
\<close>

theorem power_units:
  assumes "inst_ask ''U?'' c = (Inr u, c1)"
  shows "(u = ''1'' \<longrightarrow>
           (\<forall>d c2 v. inst_ask ''D?'' c1 = (Inr d, c2) \<longrightarrow> py_float d = Inr v \<longrightarrow>
              power c = (Inr \<lparr>magnitude = v, unit_tag = ''watts''\<rparr>, c2)
            \<and> sent c2 = sent c @ [''U?'', ''D?'']))
       \<and> (u \<noteq> ''1'' \<longrightarrow>
           (\<forall>c2 d c3 v c4. inst_write ''U1'' c1 = (Inr (), c2) \<longrightarrow>
              inst_ask ''D?'' c2 = (Inr d, c3) \<longrightarrow> py_float d = Inr v \<longrightarrow>
              inst_write (''U'' @ u) c3 = (Inr (), c4) \<longrightarrow>
              power c = (Inr \<lparr>magnitude = v, unit_tag = ''watts''\<rparr>, c4)
            \<and> sent c4 = sent c @ [''U?'', ''U1'', ''D?'', ''U'' @ u]))"
  using assms
  by (auto simp add: power_def bind_def lift_def return_def inst_ask_def inst_write_def
      inst_read_def)

theorem power_units_witness:
  "fst (power (meter ''1'')) = Inr \<lparr>magnitude = 3 / 1000, unit_tag = ''watts''\<rparr>
   \<and> sent (snd (power (meter ''1''))) = [''U?'', ''D?'']
   \<and> fst (power (meter ''3'')) = Inr \<lparr>magnitude = 3 / 1000, unit_tag = ''watts''\<rparr>
   \<and> sent (snd (power (meter ''3''))) = [''U?'', ''U1'', ''D?'', ''U3'']"
proof -
  have f: "py_float ''0.003'' = Inr (3 / 1000)"
    by (simp add: floats)
  obtain c1 where a1: "inst_ask ''U?'' (meter ''1'') = (Inr ''1'', c1)"
    and c1: "c1 = (meter ''1'')\<lparr>sent := [''U?''], dev := ''U?''\<rparr>"
    by (simp add: meter_def scripted_def inst_ask_def inst_write_def inst_read_def bind_def)
  obtain c2 where a2: "inst_ask ''D?'' c1 = (Inr ''0.003'', c2)"
    by (simp add: c1 meter_def scripted_def inst_ask_def inst_write_def inst_read_def bind_def)
  obtain e1 where b1: "inst_ask ''U?'' (meter ''3'') = (Inr ''3'', e1)"
    and e1: "e1 = (meter ''3'')\<lparr>sent := [''U?''], dev := ''U?''\<rparr>"
    by (simp add: meter_def scripted_def inst_ask_def inst_write_def inst_read_def bind_def)
  obtain e2 where b2: "inst_write ''U1'' e1 = (Inr (), e2)"
    and e2: "e2 = (meter ''3'')\<lparr>sent := [''U?'', ''U1''], dev := ''U1''\<rparr>"
    by (simp add: e1 meter_def scripted_def inst_write_def)
  obtain e3 where b3: "inst_ask ''D?'' e2 = (Inr ''0.003'', e3)"
    by (simp add: e2 meter_def scripted_def inst_ask_def inst_write_def inst_read_def bind_def)
  obtain e4 where b4: "inst_write (''U'' @ ''3'') e3 = (Inr (), e4)"
    by (simp add: inst_write_def)
  from power_units [OF a1] a2 f
  have p1: "power (meter ''1'') = (Inr \<lparr>magnitude = 3 / 1000, unit_tag = ''watts''\<rparr>, c2)
    \<and> sent c2 = sent (meter ''1'') @ [''U?'', ''D?'']"
    by blast
  from power_units [OF b1] b2 b3 b4 f
  have p2: "power (meter ''3'') = (Inr \<lparr>magnitude = 3 / 1000, unit_tag = ''watts''\<rparr>, e4)
    \<and> sent e4 = sent (meter ''3'') @ [''U?'', ''U1'', ''D?'', ''U'' @ ''3'']"
    by blast
  from p1 p2 show ?thesis by (simp add: meter_def scripted_def)
qed

lemma Newport_1830_C_set_units_invalid:
  assumes "lower units \<notin> {''watts'', ''dbm'', ''db'', ''rel''}"
  shows "Newport_1830_C_set_units units c = (Inl (Exception units_msg), c)"
  using assms by (simp add: Newport_1830_C_set_units_def raise_def)

lemma Newport_1830_C_units_ok:
  "fst (Newport_1830_C_get_units (snd (Newport_1830_C_set_units ''WATTS''
         (echoing ''U'' ''U?'' ''2'')))) = Inr ''watts''
   \<and> fst (Newport_1830_C_get_units (snd (Newport_1830_C_set_units ''Rel''
         (echoing ''U'' ''U?'' ''2'')))) = Inr ''rel''"
  by (simp add: Newport_1830_C_set_units_def Newport_1830_C_get_units_def io_simps
      inst_write_def echoing_def text_simps parse_simps)

text \<open>
  Claim C4 fails on the code for two of the four tokens. \<^verbatim>\<open>set_units\<close> sends code 2 for
  \<^verbatim>\<open>dbm\<close> and code 3 for \<^verbatim>\<open>db\<close>, while \<^verbatim>\<open>get_units\<close> reads code 2 as \<^verbatim>\<open>db\<close> and code 3
  as \<^verbatim>\<open>dbm\<close>: against a device that echoes the code last set, setting \<^verbatim>\<open>dBm\<close> reads back
  \<^verbatim>\<open>db\<close> and setting \<^verbatim>\<open>dB\<close> reads back \<^verbatim>\<open>dbm\<close>.
\<close>

theorem Newport_1830_C_units_round_trip_fails:
  "fst (Newport_1830_C_get_units (snd (Newport_1830_C_set_units ''dBm''
         (echoing ''U'' ''U?'' ''1'')))) = Inr ''db''
   \<and> fst (Newport_1830_C_get_units (snd (Newport_1830_C_set_units ''dB''
         (echoing ''U'' ''U?'' ''1'')))) = Inr ''dbm''
   \<and> lower ''dBm'' = ''dbm'' \<and> lower ''dB'' = ''db''
   \<and> sent (snd (Newport_1830_C_set_units ''dBm'' (echoing ''U'' ''U?'' ''1''))) = [''U2'']"
  by (simp add: Newport_1830_C_set_units_def Newport_1830_C_get_units_def io_simps
      inst_write_def echoing_def text_simps parse_simps)

section \<open>The 2936-R power meter\<close>

text \<open>
  Claim C5 fails on the code for three of the five setters. \<^verbatim>\<open>set_units\<close>,
  \<^verbatim>\<open>set_analogfilter\<close> and \<^verbatim>\<open>set_autoranging\<close> write the channel-select command first
  and look the argument up afterwards, so an invalid argument raises \<^verbatim>\<open>KeyError\<close> with
  that command already written. \<^verbatim>\<open>set_digitalfilter\<close> and \<^verbatim>\<open>set_range\<close> assert their
  bound first and write nothing.
\<close>

theorem Newport_2936_R_invalid_after_channel:
  "fst (Newport_2936_R_set_units ''furlongs'' 1 c) = Inl KeyError
   \<and> sent (snd (Newport_2936_R_set_units ''furlongs'' 1 c)) = sent c @ [''pm:channel 1\<newline>'']
   \<and> fst (set_analogfilter ''10khz'' 1 c) = Inl KeyError
   \<and> sent (snd (set_analogfilter ''10khz'' 1 c)) = sent c @ [''pm:channel 1\<newline>'']
   \<and> fst (set_autoranging 2 1 c) = Inl KeyError
   \<and> sent (snd (set_autoranging 2 1 c)) = sent c @ [''pm:channel 1\<newline>'']
   \<and> set_digitalfilter 10001 1 c = (Inl AssertionError, c)
   \<and> Newport_2936_R_set_range 8 1 c = (Inl AssertionError, c)"
  by (simp add: Newport_2936_R_set_units_def set_analogfilter_def set_autoranging_def
      set_digitalfilter_def Newport_2936_R_set_range_def set_channel_def
      Newport_2936_R_write_def io_simps text_simps)

text \<open>
  Claim C9. For every channel, \<^verbatim>\<open>set_analogfilter\<close> with the mode \<^verbatim>\<open>None\<close> raises
  \<^verbatim>\<open>KeyError\<close>, the table holding the key \<^verbatim>\<open>None\<close> and the lookup using \<^verbatim>\<open>none\<close>; the
  channel-select command has been written by then. No mode text at all makes the setter
  write the command of the mode without analog filter.
\<close>

theorem set_analogfilter_None:
  "fst (set_analogfilter ''None'' channel c) = Inl KeyError
   \<and> sent (snd (set_analogfilter ''None'' channel c)) =
       sent c @ [''pm:channel '' @ str_int channel @ ''\<newline>'']
   \<and> (\<forall>mode. ''pm:analogfilter 0\<newline>'' \<notin>
         set (drop (length (sent c)) (sent (snd (set_analogfilter mode channel c)))))"
proof -
  have a: "fst (set_analogfilter ''None'' channel c) = Inl KeyError
     \<and> sent (snd (set_analogfilter ''None'' channel c)) =
       sent c @ [''pm:channel '' @ str_int channel @ ''\<newline>'']"
    by (simp add: set_analogfilter_def set_channel_def Newport_2936_R_write_def io_simps
        lower_def lower_char_def char_of_eq_iff)
  have b: "''pm:analogfilter 0\<newline>'' \<notin>
         set (drop (length (sent c)) (sent (snd (set_analogfilter mode channel c))))" for mode
    using lower_not_None [of mode]
    by (simp add: set_analogfilter_def set_channel_def Newport_2936_R_write_def io_simps
        inst_write_def str_int_small)
  from a b show ?thesis by blast
qed

theorem set_analogfilter_None_witness:
  "fst (set_analogfilter ''None'' 2 (scripted (\<lambda>_. []) [])) = Inl KeyError
   \<and> sent (snd (set_analogfilter ''None'' 2 (scripted (\<lambda>_. []) []))) = [''pm:channel 2\<newline>'']
   \<and> fst (set_analogfilter ''250khz'' 2 (scripted (\<lambda>_. []) [])) = Inr ()
   \<and> sent (snd (set_analogfilter ''250khz'' 2 (scripted (\<lambda>_. []) []))) =
       [''pm:channel 2\<newline>'', ''pm:analogfilter 1\<newline>'']"
  using set_analogfilter_None [of 2 "scripted (\<lambda>_. []) []"]
  by (simp add: scripted_def set_analogfilter_def set_channel_def Newport_2936_R_write_def
      io_simps inst_write_def text_simps)

end
